theory Spec2Isabelle
  imports Complex_Main
begin

section \<open>Wire types of the job API (frontend/src/utils/jam-api.ts)\<close>

text \<open>
  The status of a job is the string union
  \<^verbatim>\<open>'pending' | 'processing' | 'completed' | 'failed' | 'cancelled'\<close>.
\<close>

datatype job_status = Pending | Processing | Completed | Failed | Cancelled

text \<open>
  A thrown JavaScript value: \<open>Error m\<close> is an \<^verbatim>\<open>Error\<close> object with message \<open>m\<close>,
  either \<^verbatim>\<open>new Error(m)\<close> or the rejection of an HTTP request (axios rejects with a
  subclass of \<^verbatim>\<open>Error\<close>), which every function of jam-api.ts logs and rethrows.
\<close>

datatype js_error = Error string

record IJobResponse =
  job_id :: string
  status_r :: job_status
  estimated_total :: "int option"
  created_at :: string

record IJobStatusResponse =
  job_id_s :: string
  status :: job_status
  total_items :: int
  processed_items :: int
  added_items :: int
  skipped_items :: int
  failed_items :: int
  progress_pct :: real
  error_message :: "string option"

datatype selection_kind_t = Explicit | All_matching

record selection_data_t =
  ids :: "int list option"
  total_at_snapshot :: "int option"

record IBulkAddRequest =
  source_collection_id :: string
  target_collection_id :: string
  selection_kind :: selection_kind_t
  selection_data :: selection_data_t
  client_idempotency_key :: "string option"

section \<open>createBulkAddJobWithPolling (frontend/src/utils/bulk-operations.ts)\<close>

text \<open>
  The server is the environment of the helper: the answer to the one POST that creates the
  job, and the answers to the successive status queries, in order. The list of status
  answers is finite; a query issued when the list is exhausted is never answered, and the
  helper is then still waiting (\<open>Unanswered\<close>). The one-second pauses between queries are
  not modelled.

  A callback is a function of the caller and may throw. It is modelled by what it does at
  each call: applied to the list of all the values it has been called with so far, the
  last being that of the current call, it yields \<open>None\<close> when the call returns normally
  and \<open>Some e\<close> when the call throws \<open>e\<close>. Since that list grows with every call,
  any sequence of returns and throws is the behaviour of some callback. Every status the
  optional callback \<open>onProgress\<close> is called with is appended to \<open>progressed\<close>.
\<close>

type_synonym 'a callback = "'a list \<Rightarrow> js_error option"

text \<open>The call of an optional callback, made only \<^verbatim>\<open>if (onProgress)\<close>.\<close>

definition call_callback :: "'a callback option \<Rightarrow> 'a list \<Rightarrow> js_error option" where
  "call_callback cb history = (case cb of None \<Rightarrow> None | Some f \<Rightarrow> f history)"

record server =
  create_answer :: "js_error + IJobResponse"
  status_answers :: "(js_error + IJobStatusResponse) list"

record helper_trace =
  posted :: "IBulkAddRequest list"
  queried :: "string list"
  progressed :: "IJobStatusResponse list"

datatype 'a outcome = Returned 'a | Threw js_error | Unanswered

definition no_trace :: helper_trace where
  "no_trace = \<lparr>posted = [], queried = [], progressed = []\<rparr>"

text \<open>\<^verbatim>\<open>jobStatus.status === 'pending' || jobStatus.status === 'processing'\<close>\<close>

definition still_active :: "IJobStatusResponse \<Rightarrow> bool" where
  "still_active js \<longleftrightarrow> status js = Pending \<or> status js = Processing"

text \<open>
  The code after the loop (lines 42 to 50). \<^verbatim>\<open>jobStatus.error_message || 'Job failed'\<close>
  takes the fallback when the message is undefined or the empty string.
\<close>

definition after_loop :: "IJobStatusResponse \<Rightarrow> IJobStatusResponse outcome" where
  "after_loop js =
     (if status js = Failed then
        Threw (Error (case error_message js of
                        None \<Rightarrow> ''Job failed''
                      | Some m \<Rightarrow> (if m = [] then ''Job failed'' else m)))
      else if status js = Cancelled then Threw (Error ''Job was cancelled'')
      else Returned js)"

text \<open>
  The do-while loop (lines 32 to 40): each round issues one status query for the job id;
  a rejected query propagates out of the helper; an answered one is passed to the
  callback, if there is one. A callback that throws ends the helper with what it threw,
  before the loop condition and the code after the loop are reached. Otherwise the
  status decides whether the loop goes round again.
\<close>

fun poll_loop ::
  "string \<Rightarrow> IJobStatusResponse callback option \<Rightarrow> (js_error + IJobStatusResponse) list
     \<Rightarrow> helper_trace \<Rightarrow> IJobStatusResponse outcome \<times> helper_trace" where
  "poll_loop jid cb [] tr = (Unanswered, tr\<lparr>queried := queried tr @ [jid]\<rparr>)"
| "poll_loop jid cb (Inl e # rest) tr = (Threw e, tr\<lparr>queried := queried tr @ [jid]\<rparr>)"
| "poll_loop jid cb (Inr js # rest) tr =
     (let tr1 = tr\<lparr>queried := queried tr @ [jid]\<rparr>;
          tr2 = (case cb of
                   None \<Rightarrow> tr1
                 | Some f \<Rightarrow> tr1\<lparr>progressed := progressed tr1 @ [js]\<rparr>)
      in case call_callback cb (progressed tr2) of
           Some e \<Rightarrow> (Threw e, tr2)
         | None \<Rightarrow>
             if still_active js then poll_loop jid cb rest tr2 else (after_loop js, tr2))"

definition createBulkAddJobWithPolling ::
  "server \<Rightarrow> IBulkAddRequest \<Rightarrow> IJobStatusResponse callback option
     \<Rightarrow> IJobStatusResponse outcome \<times> helper_trace" where
  "createBulkAddJobWithPolling srv request onProgress =
     (let tr = no_trace\<lparr>posted := [request]\<rparr> in
      case create_answer srv of
        Inl e \<Rightarrow> (Threw e, tr)
      | Inr jobResponse \<Rightarrow> poll_loop (job_id jobResponse) onProgress (status_answers srv) tr)"

text \<open>The answers of a server whose job is still running at each of them.\<close>

definition all_active :: "(js_error + IJobStatusResponse) list \<Rightarrow> bool" where
  "all_active rs \<longleftrightarrow> list_all (\<lambda>r. case r of Inl e \<Rightarrow> False | Inr js \<Rightarrow> still_active js) rs"

section \<open>BulkOperationManager (frontend/src/utils/bulk-operations.ts)\<close>

record IBulkOperationProgress =
  jobId :: string
  status_p :: job_status
  progressPercent :: real
  totalItems :: int
  processedItems :: int
  addedItems :: int
  skippedItems :: int
  failedItems :: int
  errorMessage :: "string option"

text \<open>
  The request object of \<^verbatim>\<open>startBulkAdd\<close> (lines 66 to 73). In the \<^verbatim>\<open>selectAll\<close> branch
  the object literal has the single property \<^verbatim>\<open>total_at_snapshot: 0\<close> (source comment:
  "Backend will calculate actual count"); in the other branch the single property
  \<^verbatim>\<open>ids\<close>. The idempotency key is never set.
\<close>

definition startBulkAdd_request :: "string \<Rightarrow> string \<Rightarrow> int list \<Rightarrow> bool \<Rightarrow> IBulkAddRequest" where
  "startBulkAdd_request sourceCollectionId targetCollectionId selectedCompanyIds selectAll =
     \<lparr>source_collection_id = sourceCollectionId,
      target_collection_id = targetCollectionId,
      selection_kind = (if selectAll then All_matching else Explicit),
      selection_data =
        (if selectAll then \<lparr>ids = None, total_at_snapshot = Some 0\<rparr>
         else \<lparr>ids = Some selectedCompanyIds, total_at_snapshot = None\<rparr>),
      client_idempotency_key = None\<rparr>"

definition startBulkAdd ::
  "server \<Rightarrow> string \<Rightarrow> string \<Rightarrow> int list \<Rightarrow> bool \<Rightarrow> (js_error + string) \<times> helper_trace" where
  "startBulkAdd srv sourceCollectionId targetCollectionId selectedCompanyIds selectAll =
     (let request = startBulkAdd_request sourceCollectionId targetCollectionId
                      selectedCompanyIds selectAll;
          tr = no_trace\<lparr>posted := [request]\<rparr>
      in case create_answer srv of
           Inl e \<Rightarrow> (Inl e, tr)
         | Inr response \<Rightarrow> (Inr (job_id response), tr))"

text \<open>
  The manager object together with the part of the browser it acts on. \<open>pollInterval\<close>
  and \<open>onProgressCallback\<close> are the two private fields (\<open>None\<close> is \<^verbatim>\<open>null\<close>). \<open>timers\<close>
  are the pending \<^verbatim>\<open>window.setTimeout\<close> entries, each a handle and the job id its closure
  \<^verbatim>\<open>() => this.pollJob(jobId)\<close> holds; \<open>next_handle\<close> is the handle the next
  \<^verbatim>\<open>setTimeout\<close> returns (handles are positive and never reused). \<open>in_flight\<close> are the
  calls of \<^verbatim>\<open>pollJob\<close> suspended at \<^verbatim>\<open>await getJobStatus(jobId)\<close>; \<open>status_queries\<close>
  lists every status query issued; \<open>notified\<close> every call of a progress callback;
  \<open>console_errors\<close> what the catch block logged. The record is generic in the type \<open>'cb\<close>
  of the callbacks it holds; \<^verbatim>\<open>pollJob\<close>, which calls them, takes them as callbacks on
  progress values. What a callback of the manager does at a call may depend on every
  progress value the manager has delivered so far. A callback returns or throws; it does
  not call back into the manager.
\<close>

record 'cb manager =
  pollInterval :: "nat option"
  onProgressCallback :: "'cb option"
  timers :: "(nat \<times> string) list"
  next_handle :: nat
  in_flight :: "string list"
  status_queries :: "string list"
  notified :: "('cb \<times> IBulkOperationProgress) list"
  console_errors :: "js_error list"

definition new_manager :: "'cb manager" where
  "new_manager = \<lparr>pollInterval = None, onProgressCallback = None, timers = [],
                   next_handle = 1, in_flight = [], status_queries = [], notified = [],
                   console_errors = []\<rparr>"

text \<open>
  \<^verbatim>\<open>stopPolling\<close> (lines 90 to 96). \<^verbatim>\<open>if (this.pollInterval)\<close> is false for
  \<^verbatim>\<open>null\<close> and for the number 0. \<^verbatim>\<open>clearTimeout\<close> of a handle that is not pending
  does nothing.
\<close>

definition stopPolling :: "'cb manager \<Rightarrow> 'cb manager" where
  "stopPolling w =
     (let w1 = (case pollInterval w of
                  None \<Rightarrow> w
                | Some h \<Rightarrow>
                    if h \<noteq> 0
                    then w\<lparr>timers := filter (\<lambda>t. fst t \<noteq> h) (timers w), pollInterval := None\<rparr>
                    else w)
      in w1\<lparr>onProgressCallback := None\<rparr>)"

text \<open>
  \<^verbatim>\<open>pollJob\<close> (lines 108 to 140) runs in two parts: up to the \<^verbatim>\<open>await\<close> it issues the
  status query (\<open>pollJob_call\<close>); when the query settles, it resumes with the answer
  (\<open>pollJob_settle\<close>).
\<close>

definition pollJob_call :: "string \<Rightarrow> 'cb manager \<Rightarrow> 'cb manager" where
  "pollJob_call jid w =
     w\<lparr>in_flight := in_flight w @ [jid], status_queries := status_queries w @ [jid]\<rparr>"

definition progress_of :: "string \<Rightarrow> IJobStatusResponse \<Rightarrow> IBulkOperationProgress" where
  "progress_of jid st =
     \<lparr>jobId = jid, status_p = status st, progressPercent = progress_pct st,
      totalItems = total_items st, processedItems = processed_items st,
      addedItems = added_items st, skippedItems = skipped_items st,
      failedItems = failed_items st, errorMessage = error_message st\<rparr>"

text \<open>
  The catch block (lines 135 to 139): the error is logged and polling is stopped. It is
  entered when the query is rejected and when the callback, which is called inside the
  \<^verbatim>\<open>try\<close>, throws; in both cases the code that arms the timer is not reached.
\<close>

definition pollJob_catch :: "js_error \<Rightarrow> 'cb manager \<Rightarrow> 'cb manager" where
  "pollJob_catch e w = stopPolling (w\<lparr>console_errors := console_errors w @ [e]\<rparr>)"

fun pollJob_settle ::
  "string \<Rightarrow> js_error + IJobStatusResponse \<Rightarrow> IBulkOperationProgress callback manager
     \<Rightarrow> IBulkOperationProgress callback manager" where
  "pollJob_settle jid (Inr st) w =
     (let w0 = w\<lparr>in_flight := remove1 jid (in_flight w)\<rparr>;
          w1 = (case onProgressCallback w0 of
                  None \<Rightarrow> w0
                | Some cb \<Rightarrow> w0\<lparr>notified := notified w0 @ [(cb, progress_of jid st)]\<rparr>)
      in case call_callback (onProgressCallback w0) (map snd (notified w1)) of
           Some e \<Rightarrow> pollJob_catch e w1
         | None \<Rightarrow>
             if status st = Pending \<or> status st = Processing
             then w1\<lparr>pollInterval := Some (next_handle w1),
                     timers := timers w1 @ [(next_handle w1, jid)],
                     next_handle := Suc (next_handle w1)\<rparr>
             else w1)"
| "pollJob_settle jid (Inl e) w =
     pollJob_catch e (w\<lparr>in_flight := remove1 jid (in_flight w)\<rparr>)"

definition startPolling :: "string \<Rightarrow> 'cb \<Rightarrow> 'cb manager \<Rightarrow> 'cb manager" where
  "startPolling jid onProgress w = pollJob_call jid (w\<lparr>onProgressCallback := Some onProgress\<rparr>)"

text \<open>A pending timer fires: it leaves the timer table and its closure calls \<^verbatim>\<open>pollJob\<close>.\<close>

definition timer_fires :: "nat \<Rightarrow> 'cb manager \<Rightarrow> 'cb manager" where
  "timer_fires h w =
     (case map_of (timers w) h of
        None \<Rightarrow> w
      | Some jid \<Rightarrow> pollJob_call jid (w\<lparr>timers := filter (\<lambda>t. fst t \<noteq> h) (timers w)\<rparr>))"

text \<open>
  Everything that can happen to a manager: the two public methods are called, a pending
  timer fires, a suspended \<^verbatim>\<open>pollJob\<close> gets the answer to its query.
\<close>

datatype 'cb manager_event =
    Start_polling string 'cb
  | Stop_polling
  | Timer_fires nat
  | Query_settles string "js_error + IJobStatusResponse"

fun apply_event ::
  "IBulkOperationProgress callback manager_event \<Rightarrow> IBulkOperationProgress callback manager
     \<Rightarrow> IBulkOperationProgress callback manager" where
  "apply_event (Start_polling jid cb) w = startPolling jid cb w"
| "apply_event Stop_polling w = stopPolling w"
| "apply_event (Timer_fires h) w = timer_fires h w"
| "apply_event (Query_settles jid a) w =
     (if jid \<in> set (in_flight w) then pollJob_settle jid a w else w)"

fun run_events ::
  "IBulkOperationProgress callback manager_event list \<Rightarrow> IBulkOperationProgress callback manager
     \<Rightarrow> IBulkOperationProgress callback manager" where
  "run_events [] w = w"
| "run_events (ev # evs) w = run_events evs (apply_event ev w)"

fun is_start :: "'cb manager_event \<Rightarrow> bool" where
  "is_start (Start_polling jid cb) = True"
| "is_start ev = False"

text \<open>
  One undisturbed polling chain: the suspended query gets the next answer of the server,
  and the timer that \<^verbatim>\<open>pollJob\<close> then set, if any, fires. With no answer left the query
  stays suspended.
\<close>

fun await_answers ::
  "(js_error + IJobStatusResponse) list \<Rightarrow> IBulkOperationProgress callback manager
     \<Rightarrow> IBulkOperationProgress callback manager" where
  "await_answers [] w = w"
| "await_answers (a # rest) w =
     (case in_flight w of
        [] \<Rightarrow> w
      | jid # others \<Rightarrow>
          (let w1 = pollJob_settle jid a w
           in case timers w1 of
                [] \<Rightarrow> w1
              | t # ts \<Rightarrow> await_answers rest (timer_fires (fst t) w1)))"

definition pollJob_run ::
  "string \<Rightarrow> IBulkOperationProgress callback \<Rightarrow> (js_error + IJobStatusResponse) list
     \<Rightarrow> IBulkOperationProgress callback manager" where
  "pollJob_run jid onProgress answers = await_answers answers (startPolling jid onProgress new_manager)"

section \<open>BulkAddModal (frontend/src/components/BulkAddModal.tsx)\<close>

datatype SelectionMethod = Selected | All

record BulkAddModalProps =
  sourceCollectionId :: string
  selectedCompanyIds :: "int list"
  totalCompaniesInCollection :: int

text \<open>
  The state hooks of the component that the handlers read or write. The list of
  collections and the loading flag only feed the rendering and are left out.
\<close>

record modal_state =
  selectedTargetCollectionId :: string
  selectionMethod :: SelectionMethod
  error :: "string option"
  progress :: real
  isProcessing :: bool

definition initial_modal_state :: modal_state where
  "initial_modal_state =
     \<lparr>selectedTargetCollectionId = [], selectionMethod = Selected, error = None,
      progress = 0, isProcessing = False\<rparr>"

text \<open>
  A handler is a closure over the state of the render that created it: it reads the state
  \<open>r\<close> of that render, and its setter calls update the current state \<open>s\<close>. For a handler
  invoked from the rendered dialog the two are the same.

  \<^verbatim>\<open>handleClose\<close> (lines 132 to 140); the second component tells whether \<^verbatim>\<open>onClose\<close>
  was invoked.
\<close>

definition handleClose :: "modal_state \<Rightarrow> modal_state \<Rightarrow> modal_state \<times> bool" where
  "handleClose r s =
     (if \<not> isProcessing r
      then (s\<lparr>selectedTargetCollectionId := [], selectionMethod := Selected,
              error := None, progress := 0\<rparr>, True)
      else (s, False))"

text \<open>The object literal of lines 106 to 114.\<close>

definition handleSubmit_request :: "BulkAddModalProps \<Rightarrow> modal_state \<Rightarrow> IBulkAddRequest" where
  "handleSubmit_request p r =
     \<lparr>source_collection_id = sourceCollectionId p,
      target_collection_id = selectedTargetCollectionId r,
      selection_kind = (if selectionMethod r = All then All_matching else Explicit),
      selection_data =
        \<lparr>ids = (if selectionMethod r = All then None else Some (selectedCompanyIds p)),
         total_at_snapshot =
           (if selectionMethod r = All then Some (totalCompaniesInCollection p) else None)\<rparr>,
      client_idempotency_key = None\<rparr>"

text \<open>
  What one call of \<^verbatim>\<open>handleSubmit\<close> did: the state it leaves, the network traffic, and
  whether \<^verbatim>\<open>onComplete\<close> and \<^verbatim>\<open>onClose\<close> were invoked. \<open>awaiting\<close> holds when the call is
  still suspended in the polling helper.
\<close>

record submit_result =
  final :: modal_state
  traffic :: helper_trace
  onComplete_called :: bool
  onClose_called :: bool
  awaiting :: bool

definition rejected :: "modal_state \<Rightarrow> string \<Rightarrow> submit_result" where
  "rejected r msg =
     \<lparr>final = r\<lparr>error := Some msg\<rparr>, traffic = no_trace, onComplete_called = False,
      onClose_called = False, awaiting = False\<rparr>"

text \<open>The progress callback of line 118, applied to every status the helper delivered.\<close>

definition show_progress :: "IJobStatusResponse list \<Rightarrow> modal_state \<Rightarrow> modal_state" where
  "show_progress sts s = (if sts = [] then s else s\<lparr>progress := progress_pct (last sts)\<rparr>)"

text \<open>
  \<^verbatim>\<open>handleSubmit\<close> (lines 79 to 130). \<open>confirmed\<close> is the answer of the user to the
  \<^verbatim>\<open>confirm\<close> dialog, which is only shown for the method \<open>All\<close>.
  \<^verbatim>\<open>!selectedTargetCollectionId\<close> holds for the empty string. The call of
  \<^verbatim>\<open>handleClose\<close> on success is the closure of the same render, so it reads \<open>r\<close>.
  The callback handed to the helper is the state setter of line 118, which returns
  normally at every call.
\<close>

definition handleSubmit ::
  "BulkAddModalProps \<Rightarrow> bool \<Rightarrow> server \<Rightarrow> modal_state \<Rightarrow> submit_result" where
  \<open>handleSubmit p confirmed srv r =
     (if selectedTargetCollectionId r = [] then
        rejected r ''Please select a target collection''
      else if sourceCollectionId p = selectedTargetCollectionId r then
        rejected r ''Source and target collections cannot be the same''
      else if selectionMethod r = Selected \<and> selectedCompanyIds p = [] then
        rejected r ''No companies selected. Please select companies or choose "Add All"''
      else if selectionMethod r = All \<and> \<not> confirmed then
        \<lparr>final = r, traffic = no_trace, onComplete_called = False, onClose_called = False,
         awaiting = False\<rparr>
      else
        (let s1 = r\<lparr>isProcessing := True, error := None, progress := 0\<rparr>;
             request = handleSubmit_request p r;
             (out, tr) = createBulkAddJobWithPolling srv request (Some (\<lambda>history. None));
             s2 = show_progress (progressed tr) s1
         in case out of
              Returned js \<Rightarrow>
                (let (s3, closed) = handleClose r s2
                 in \<lparr>final = s3\<lparr>isProcessing := False, progress := 0\<rparr>, traffic = tr,
                     onComplete_called = True, onClose_called = closed, awaiting = False\<rparr>)
            | Threw (Error m) \<Rightarrow>
                \<lparr>final = s2\<lparr>error := Some m, isProcessing := False, progress := 0\<rparr>,
                 traffic = tr, onComplete_called = False, onClose_called = False,
                 awaiting = False\<rparr>
            | Unanswered \<Rightarrow>
                \<lparr>final = s2, traffic = tr, onComplete_called = False, onClose_called = False,
                 awaiting = True\<rparr>))\<close>

text \<open>The \<^verbatim>\<open>disabled\<close> attribute of the submit button (lines 227 to 231).\<close>

definition submit_disabled :: "BulkAddModalProps \<Rightarrow> modal_state \<Rightarrow> bool" where
  "submit_disabled p r \<longleftrightarrow>
     isProcessing r \<or> selectedTargetCollectionId r = [] \<or>
     (selectionMethod r = Selected \<and> selectedCompanyIds p = [])"

text \<open>The three conditions under which the dialog goes on to create a job.\<close>

definition submission_valid :: "BulkAddModalProps \<Rightarrow> modal_state \<Rightarrow> bool" where
  "submission_valid p r \<longleftrightarrow>
     selectedTargetCollectionId r \<noteq> [] \<and>
     sourceCollectionId p \<noteq> selectedTargetCollectionId r \<and>
     (selectionMethod r = Selected \<longrightarrow> selectedCompanyIds p \<noteq> [])"

section \<open>CompanyTable (frontend/src/components/CompanyTable.tsx)\<close>

record ICompany =
  id_c :: int
  company_name :: string
  liked :: bool

text \<open>
  A row id handed over by the data grid is a string or a number. \<^verbatim>\<open>Number(id)\<close> is the
  identity on a number; on a string it is the coercion of the language, taken here as the
  parameter \<open>parse\<close>.
\<close>

datatype GridRowId = Row_string string | Row_number int

fun Number_js :: "(string \<Rightarrow> int) \<Rightarrow> GridRowId \<Rightarrow> int" where
  "Number_js parse (Row_number n) = n"
| "Number_js parse (Row_string s) = parse s"

record table_state =
  response :: "ICompany list"
  selectedCompanyIds_t :: "int list"
  dataGridKey :: int

text \<open>
  \<^verbatim>\<open>handleSelectionChange\<close> of CompanyTable.tsx (lines 42 to 52).
  \<^verbatim>\<open>currentPageIds.includes(id)\<close> is membership in the list.
\<close>

definition handleSelectionChange ::
  "(string \<Rightarrow> int) \<Rightarrow> GridRowId list \<Rightarrow> table_state \<Rightarrow> table_state" where
  "handleSelectionChange parse newSelection t =
     (let currentPageIds = map id_c (response t);
          otherPagesSelection = filter (\<lambda>i. i \<notin> set currentPageIds) (selectedCompanyIds_t t);
          newSelectionNumbers = map (Number_js parse) newSelection;
          updatedSelection = otherPagesSelection @ newSelectionNumbers
      in t\<lparr>selectedCompanyIds_t := updatedSelection, dataGridKey := dataGridKey t + 1\<rparr>)"

text \<open>
  The variant of the same handler in src/unnamed/part_000 (lines 41 to 47): the new
  selection is restricted to the ids of the current page, and there is no grid key.
\<close>

definition handleSelectionChange_part_000 ::
  "(string \<Rightarrow> int) \<Rightarrow> GridRowId list \<Rightarrow> table_state \<Rightarrow> table_state" where
  "handleSelectionChange_part_000 parse newSelection t =
     (let currentPageIds = map id_c (response t);
          otherPagesSelection = filter (\<lambda>i. i \<notin> set currentPageIds) (selectedCompanyIds_t t);
          newSelectionNumbers =
            filter (\<lambda>i. i \<in> set currentPageIds) (map (Number_js parse) newSelection);
          updatedSelection = otherPagesSelection @ newSelectionNumbers
      in t\<lparr>selectedCompanyIds_t := updatedSelection\<rparr>)"

section \<open>The job engine behind the API (specification, sections 3 and 4)\<close>

text \<open>
  The backend that executes a job is not among the sources; the client above only calls
  it. The definitions of this section follow the specification.
\<close>

text \<open>
  Modelled from the spec: the selection specification of a job (section 3), which the
  backend stores with the job; the backend is missing from the sources. A tagged choice
  of the explicit ids or the snapshot total.
\<close>

datatype selection_spec = Explicit_ids "int list" | All_matching_snapshot int

text \<open>
  Modelled from the spec: the job record of the missing backend (section 3) with its
  status, its five counters, the optional error message and the cancellation flag.
\<close>

record job_record =
  source_j :: string
  target_j :: string
  selection_j :: selection_spec
  status_j :: job_status
  total_items_j :: nat
  processed_items_j :: nat
  added_items_j :: nat
  skipped_items_j :: nat
  failed_items_j :: nat
  error_message_j :: "string option"
  cancel_requested :: bool

text \<open>
  Modelled from the spec: where the executor of the missing backend stands in the
  algorithm of section 4.4: not yet claimed, claimed and about to validate and resolve
  (steps 1 and 2), iterating (step 3), or done.
\<close>

datatype executor_phase = Unclaimed | Validating | Iterating | Finished

text \<open>
  Modelled from the spec: one job of the missing backend together with what its executor
  works on: the rest of the resolved id sequence and the membership store (section 4.2),
  a map from collection ids to member lists; \<open>Exists\<close> is definedness, \<open>Contains\<close> is
  membership.
\<close>

record engine =
  job :: job_record
  phase :: executor_phase
  pending_ids :: "int list"
  store :: "string \<Rightarrow> int list option"

text \<open>
  Modelled from the spec: the deduplication of explicit ids by the missing Selection
  Resolver (section 3: "duplicates are deduplicated, order of first occurrence
  preserved").
\<close>

fun dedup :: "int list \<Rightarrow> int list" where
  "dedup [] = []"
| "dedup (x # xs) = x # dedup (filter (\<lambda>y. y \<noteq> x) xs)"

text \<open>
  Modelled from the spec: the missing Selection Resolver (section 4.1). \<open>None\<close> is the
  condition \<open>SourceNotFound\<close>. For \<open>explicit\<close> the deduplicated input; for
  \<open>all_matching\<close> the membership of the source at resolution time, whatever the snapshot.
\<close>

definition resolve :: "(string \<Rightarrow> int list option) \<Rightarrow> string \<Rightarrow> selection_spec \<Rightarrow> int list option" where
  "resolve st src sel =
     (case st src of
        None \<Rightarrow> None
      | Some members \<Rightarrow>
          Some (case sel of Explicit_ids xs \<Rightarrow> dedup xs | All_matching_snapshot n \<Rightarrow> members))"

text \<open>
  Modelled from the spec: what the store of the missing backend answers when the executor
  calls \<open>Add\<close> (section 4.2: success or failure), or a store error severe enough to abort
  the job (section 7, \<open>JobFailure\<close>).
\<close>

datatype store_reply = Add_succeeds | Add_fails string | Store_error string

text \<open>Modelled from the spec: a job of the missing backend as Submit creates it (section 4.5).\<close>

definition created :: "string \<Rightarrow> string \<Rightarrow> selection_spec \<Rightarrow> (string \<Rightarrow> int list option) \<Rightarrow> engine" where
  "created src tgt sel st =
     \<lparr>job = \<lparr>source_j = src, target_j = tgt, selection_j = sel, status_j = Pending,
             total_items_j = 0, processed_items_j = 0, added_items_j = 0,
             skipped_items_j = 0, failed_items_j = 0, error_message_j = None,
             cancel_requested = False\<rparr>,
      phase = Unclaimed, pending_ids = [], store = st\<rparr>"

text \<open>
  Modelled from the spec: the transition of a job of the missing backend to \<open>failed\<close>
  with its message (section 4.4: a fatal error routes to \<open>failed\<close>; section 7: a failed
  job carries an error message).
\<close>

definition fail_job :: "string \<Rightarrow> engine \<Rightarrow> engine" where
  "fail_job msg e =
     e\<lparr>job := (job e)\<lparr>status_j := Failed, error_message_j := Some msg\<rparr>, phase := Finished\<rparr>"

text \<open>
  Modelled from the spec: one atomic step of the missing Job Executor (section 4.4).
  Claiming flips \<open>pending\<close> to \<open>processing\<close>. Steps 1 and 2 validate the two collections,
  reject source equal to target, resolve the selection and record \<open>total_items\<close>. Step 3
  handles one id: the cancellation flag is checked first; a member of the target is
  skipped, otherwise \<open>Add\<close> is called and counted as added or failed (a failure
  overwrites the error message and the job keeps going); the item counts as processed
  in the same step. Step 4 completes the job when the sequence is exhausted.
\<close>

definition executor_step :: "store_reply \<Rightarrow> engine \<Rightarrow> engine" where
  "executor_step reply e =
     (let j = job e in
      case phase e of
        Unclaimed \<Rightarrow> e\<lparr>job := j\<lparr>status_j := Processing\<rparr>, phase := Validating\<rparr>
      | Validating \<Rightarrow>
          (if store e (source_j j) = None then fail_job ''Source collection not found'' e
           else if store e (target_j j) = None then fail_job ''Target collection not found'' e
           else if source_j j = target_j j
           then fail_job ''Source and target collections cannot be the same'' e
           else case resolve (store e) (source_j j) (selection_j j) of
                  None \<Rightarrow> fail_job ''Source collection not found'' e
                | Some seq \<Rightarrow>
                    e\<lparr>job := j\<lparr>total_items_j := length seq\<rparr>, pending_ids := seq,
                      phase := Iterating\<rparr>)
      | Iterating \<Rightarrow>
          (if cancel_requested j
           then e\<lparr>job := j\<lparr>status_j := Cancelled\<rparr>, phase := Finished\<rparr>
           else case pending_ids e of
                  [] \<Rightarrow> e\<lparr>job := j\<lparr>status_j := Completed\<rparr>, phase := Finished\<rparr>
                | x # rest \<Rightarrow>
                    (case store e (target_j j) of
                       None \<Rightarrow> fail_job ''Target collection not found'' e
                     | Some members \<Rightarrow>
                         if x \<in> set members
                         then e\<lparr>job := j\<lparr>skipped_items_j := skipped_items_j j + 1,
                                          processed_items_j := processed_items_j j + 1\<rparr>,
                                pending_ids := rest\<rparr>
                         else (case reply of
                                 Add_succeeds \<Rightarrow>
                                   e\<lparr>job := j\<lparr>added_items_j := added_items_j j + 1,
                                              processed_items_j := processed_items_j j + 1\<rparr>,
                                     pending_ids := rest,
                                     store := (store e)(target_j j \<mapsto> members @ [x])\<rparr>
                               | Add_fails msg \<Rightarrow>
                                   e\<lparr>job := j\<lparr>failed_items_j := failed_items_j j + 1,
                                              processed_items_j := processed_items_j j + 1,
                                              error_message_j := Some msg\<rparr>,
                                     pending_ids := rest\<rparr>
                               | Store_error msg \<Rightarrow> fail_job msg e)))
      | Finished \<Rightarrow> e)"

text \<open>
  Modelled from the spec: \<open>RequestCancel\<close> of the missing registry (section 4.3): it sets
  the flag of a job that is not terminal and changes nothing else.
\<close>

definition request_cancel :: "engine \<Rightarrow> engine" where
  "request_cancel e =
     (if status_j (job e) = Pending \<or> status_j (job e) = Processing
      then e\<lparr>job := (job e)\<lparr>cancel_requested := True\<rparr>\<rparr>
      else e)"

text \<open>
  Modelled from the spec: everything that happens to a job of the missing backend between
  two observations: a step of its executor, a cancel request, or another party changing
  a collection of the store (section 4.2 tolerates interleaved external mutation).
\<close>

datatype engine_event =
    Executor_step store_reply
  | Cancel_request
  | External_put string "int list"
  | External_drop string

text \<open>
  Modelled from the spec: the effect of each such event on a job of the missing backend,
  and the run of a list of them from left to right.
\<close>

fun engine_event_step :: "engine_event \<Rightarrow> engine \<Rightarrow> engine" where
  "engine_event_step (Executor_step reply) e = executor_step reply e"
| "engine_event_step Cancel_request e = request_cancel e"
| "engine_event_step (External_put c members) e = e\<lparr>store := (store e)(c \<mapsto> members)\<rparr>"
| "engine_event_step (External_drop c) e = e\<lparr>store := (store e)(c := None)\<rparr>"

fun run_engine :: "engine_event list \<Rightarrow> engine \<Rightarrow> engine" where
  "run_engine [] e = e"
| "run_engine (ev # evs) e = run_engine evs (engine_event_step ev e)"

text \<open>
  Modelled from the spec: the invariant of the counters (sections 3 and 8) as a predicate
  on the job record of the missing backend.
\<close>

definition counters_consistent :: "job_record \<Rightarrow> bool" where
  "counters_consistent j \<longleftrightarrow>
     processed_items_j j = added_items_j j + skipped_items_j j + failed_items_j j \<and>
     processed_items_j j \<le> total_items_j j"

section \<open>Predicates and sample data used by the properties\<close>


text \<open>
  The optional callback returns normally at each of the calls with the values \<open>xs\<close>, made
  after the calls with the values \<open>seen\<close>.
\<close>

fun returns_on :: "'a callback option \<Rightarrow> 'a list \<Rightarrow> 'a list \<Rightarrow> bool" where
  "returns_on cb seen [] = True"
| "returns_on cb seen (x # xs) =
     (call_callback cb (seen @ [x]) = None \<and> returns_on cb (seen @ [x]) xs)"

text \<open>
  What the callback of the manager does when \<^verbatim>\<open>pollJob\<close> hands it the progress of the
  status \<open>js\<close> in the state \<open>w\<close>; \<open>None\<close> also when no callback is set.
\<close>

definition callback_outcome ::
  "IBulkOperationProgress callback manager \<Rightarrow> string \<Rightarrow> IJobStatusResponse \<Rightarrow> js_error option" where
  "callback_outcome w jid js =
     call_callback (onProgressCallback w) (map snd (notified w) @ [progress_of jid js])"

text \<open>A callback that returns at every call, and one that throws at every call.\<close>

definition returning_callback :: "'a callback" where
  "returning_callback history = None"

definition throwing_callback :: "'a callback" where
  "throwing_callback history = Some (Error ''callback failed'')"

text \<open>
  A request of kind \<open>all_matching\<close> carries the total \<open>observed\<close> as its snapshot.
\<close>

definition carries_snapshot :: "int \<Rightarrow> IBulkAddRequest \<Rightarrow> bool" where
  "carries_snapshot observed req \<longleftrightarrow>
     (selection_kind req = All_matching \<longrightarrow>
        total_at_snapshot (selection_data req) = Some observed)"

text \<open>Exactly the field of \<open>selection_data\<close> that belongs to the kind is defined.\<close>

definition one_field_populated :: "IBulkAddRequest \<Rightarrow> bool" where
  "one_field_populated req \<longleftrightarrow>
     (selection_kind req = Explicit \<longrightarrow>
        ids (selection_data req) \<noteq> None \<and> total_at_snapshot (selection_data req) = None) \<and>
     (selection_kind req = All_matching \<longrightarrow>
        total_at_snapshot (selection_data req) \<noteq> None \<and> ids (selection_data req) = None)"

text \<open>
  Timer handles of a manager are positive and below the next handle; this holds of every
  manager that started as \<open>new_manager\<close>.
\<close>

definition handles_fresh :: "'cb manager \<Rightarrow> bool" where
  "handles_fresh w \<longleftrightarrow>
     0 < next_handle w \<and> list_all (\<lambda>t. fst t < next_handle w) (timers w) \<and>
     (case pollInterval w of None \<Rightarrow> True | Some h \<Rightarrow> 0 < h)"

text \<open>
  What the executor steps preserve: the processed items are the added, skipped and failed
  ones; they and the ids still pending do not exceed the total; nothing is processed
  before the selection is resolved.
\<close>

definition engine_inv :: "engine \<Rightarrow> bool" where
  "engine_inv e \<longleftrightarrow>
     processed_items_j (job e) =
       added_items_j (job e) + skipped_items_j (job e) + failed_items_j (job e) \<and>
     processed_items_j (job e) + length (pending_ids e) \<le> total_items_j (job e) \<and>
     (phase e = Unclaimed \<or> phase e = Validating \<longrightarrow> processed_items_j (job e) = 0)"

definition sample_status :: "job_status \<Rightarrow> string option \<Rightarrow> IJobStatusResponse" where
  "sample_status s m =
     \<lparr>job_id_s = ''job-1'', status = s, total_items = 3, processed_items = 1,
      added_items = 1, skipped_items = 0, failed_items = 0, progress_pct = 33,
      error_message = m\<rparr>"

definition sample_server :: "(js_error + IJobStatusResponse) list \<Rightarrow> server" where
  "sample_server answers =
     \<lparr>create_answer = Inr \<lparr>job_id = ''job-1'', status_r = Pending, estimated_total = None,
                            created_at = ''2025-01-01T00:00:00''\<rparr>,
      status_answers = answers\<rparr>"

definition sample_props :: BulkAddModalProps where
  "sample_props =
     \<lparr>sourceCollectionId = ''c1'', selectedCompanyIds = [3, 4],
      totalCompaniesInCollection = 100\<rparr>"

definition sample_state :: "string \<Rightarrow> SelectionMethod \<Rightarrow> bool \<Rightarrow> modal_state" where
  "sample_state target method busy =
     \<lparr>selectedTargetCollectionId = target, selectionMethod = method, error = None,
      progress = 0, isProcessing = busy\<rparr>"

definition sample_table :: table_state where
  "sample_table =
     \<lparr>response = [\<lparr>id_c = 1, company_name = ''Acme'', liked = False\<rparr>,
                  \<lparr>id_c = 2, company_name = ''Bolt'', liked = True\<rparr>],
      selectedCompanyIds_t = [1, 7], dataGridKey = 0\<rparr>"

section \<open>Properties of the polling helper\<close>




lemma poll_loop_posted: "posted (snd (poll_loop jid cb rs tr)) = posted tr"
  by (induction jid cb rs tr rule: poll_loop.induct)
    (simp_all add: Let_def split: option.splits)

lemma helper_posted: "posted (snd (createBulkAddJobWithPolling srv req cb)) = [req]"
  by (simp add: createBulkAddJobWithPolling_def no_trace_def poll_loop_posted Let_def
      split: sum.splits)











section \<open>Properties of the BulkOperationManager\<close>

lemma handles_fresh_new: "handles_fresh new_manager"
  by (simp add: handles_fresh_def new_manager_def)

lemma handles_fresh_stopPolling: "handles_fresh w \<Longrightarrow> handles_fresh (stopPolling w)"
  by (auto simp: handles_fresh_def stopPolling_def Let_def list_all_iff split: option.splits)

lemma handles_fresh_catch: "handles_fresh w \<Longrightarrow> handles_fresh (pollJob_catch e w)"
proof -
  assume "handles_fresh w"
  then have "handles_fresh (w\<lparr>console_errors := console_errors w @ [e]\<rparr>)"
    by (simp add: handles_fresh_def)
  then show ?thesis unfolding pollJob_catch_def by (rule handles_fresh_stopPolling)
qed

lemma handles_fresh_start: "handles_fresh w \<Longrightarrow> handles_fresh (startPolling jid cb w)"
  by (simp add: handles_fresh_def startPolling_def pollJob_call_def)

text \<open>The three ways \<^verbatim>\<open>pollJob\<close> ends once its query is answered with a status.\<close>

lemma settle_status:
  "pollJob_settle jid (Inr js) w =
     (let w1 = w\<lparr>in_flight := remove1 jid (in_flight w),
                  notified := notified w @
                    (case onProgressCallback w of
                       None \<Rightarrow> []
                     | Some cb \<Rightarrow> [(cb, progress_of jid js)])\<rparr>
      in case callback_outcome w jid js of
           Some e \<Rightarrow> pollJob_catch e w1
         | None \<Rightarrow>
             if status js = Pending \<or> status js = Processing
             then w1\<lparr>pollInterval := Some (next_handle w),
                     timers := timers w @ [(next_handle w, jid)],
                     next_handle := Suc (next_handle w)\<rparr>
             else w1)"
  by (cases "onProgressCallback w")
    (simp_all add: Let_def callback_outcome_def call_callback_def split: option.splits)

lemma handles_fresh_settle: "handles_fresh w \<Longrightarrow> handles_fresh (pollJob_settle jid a w)"
proof (cases a)
  case (Inl e)
  assume h: "handles_fresh w"
  have "handles_fresh (w\<lparr>in_flight := remove1 jid (in_flight w)\<rparr>)"
    using h by (simp add: handles_fresh_def)
  then show ?thesis using Inl by (simp add: handles_fresh_catch)
next
  case (Inr js)
  assume h: "handles_fresh w"
  let ?w1 = "w\<lparr>in_flight := remove1 jid (in_flight w),
                  notified := notified w @
                    (case onProgressCallback w of
                       None \<Rightarrow> []
                     | Some cb \<Rightarrow> [(cb, progress_of jid js)])\<rparr>"
  have w1: "handles_fresh ?w1"
    using h by (simp add: handles_fresh_def)
  have armed: "handles_fresh (?w1\<lparr>pollInterval := Some (next_handle w),
                     timers := timers w @ [(next_handle w, jid)],
                     next_handle := Suc (next_handle w)\<rparr>)"
    using h by (auto simp: handles_fresh_def list_all_iff)
  show ?thesis unfolding Inr settle_status Let_def
    using w1 armed handles_fresh_catch [OF w1]
    by (simp split: option.splits)
qed

lemma handles_fresh_fires: "handles_fresh w \<Longrightarrow> handles_fresh (timer_fires h w)"
  by (auto simp: handles_fresh_def timer_fires_def pollJob_call_def list_all_iff
      split: option.splits)

lemma handles_fresh_event: "handles_fresh w \<Longrightarrow> handles_fresh (apply_event ev w)"
  by (cases ev)
    (simp_all add: handles_fresh_start handles_fresh_stopPolling
      handles_fresh_fires handles_fresh_settle del: pollJob_settle.simps)

lemma handles_fresh_run: "handles_fresh w \<Longrightarrow> handles_fresh (run_events evs w)"
  by (induction evs arbitrary: w) (simp_all add: handles_fresh_event)

lemma catch_timers: "set (timers (pollJob_catch e w)) \<subseteq> set (timers w)"
  by (auto simp: pollJob_catch_def stopPolling_def Let_def split: option.splits)

lemma catch_queries: "status_queries (pollJob_catch e w) = status_queries w"
  by (simp add: pollJob_catch_def stopPolling_def Let_def split: option.splits)

lemma settle_timers_returns:
  "callback_outcome w jid js = None \<Longrightarrow>
   timers (pollJob_settle jid (Inr js) w) =
   timers w @ (if status js = Pending \<or> status js = Processing then [(next_handle w, jid)] else [])"
  unfolding settle_status by (simp add: Let_def)

lemma settle_timers_throws:
  "callback_outcome w jid js = Some e \<Longrightarrow>
   set (timers (pollJob_settle jid (Inr js) w)) \<subseteq> set (timers w)"
  unfolding settle_status using catch_timers
  by (fastforce simp: Let_def)

lemma settle_queries: "status_queries (pollJob_settle jid a w) = status_queries w"
proof (cases a)
  case (Inl e)
  then show ?thesis by (simp add: catch_queries)
next
  case (Inr js)
  show ?thesis unfolding Inr settle_status
    by (simp add: Let_def catch_queries split: option.splits)
qed


lemma settle_no_timer:
  assumes "\<not> ((status js = Pending \<or> status js = Processing) \<and> callback_outcome w jid js = None)"
  shows "set (timers (pollJob_settle jid (Inr js) w)) \<subseteq> set (timers w)"
proof (cases "callback_outcome w jid js")
  case None
  then show ?thesis using assms by (simp add: settle_timers_returns del: pollJob_settle.simps)
next
  case (Some e)
  then show ?thesis by (rule settle_timers_throws)
qed


lemma chain_step_explicit:
  assumes "in_flight w = [jid]" and "timers w = []" and "onProgressCallback w = Some cb"
    and "still_active js" and "callback_outcome w jid js = None"
  defines "w' \<equiv> timer_fires (next_handle w) (pollJob_settle jid (Inr js) w)"
  shows "await_answers (Inr js # rest) w = await_answers rest w' \<and>
         in_flight w' = [jid] \<and> timers w' = [] \<and> onProgressCallback w' = Some cb \<and>
         map snd (notified w') = map snd (notified w) @ [progress_of jid js] \<and>
         status_queries w' = status_queries w @ [jid]"
proof -
  let ?w1 = "pollJob_settle jid (Inr js) w"
  have t1: "timers ?w1 = [(next_handle w, jid)]"
    using assms(2,4) by (simp add: settle_timers_returns [OF assms(5)] still_active_def
        del: pollJob_settle.simps)
  have rest1: "in_flight ?w1 = []" "onProgressCallback ?w1 = Some cb"
    "map snd (notified ?w1) = map snd (notified w) @ [progress_of jid js]"
    unfolding settle_status using assms(1,3,5) by (simp_all add: Let_def)
  have q1: "status_queries ?w1 = status_queries w"
    by (rule settle_queries)
  have w': "w' = pollJob_call jid (?w1\<lparr>timers := []\<rparr>)"
    unfolding w'_def timer_fires_def t1 by simp
  have "await_answers (Inr js # rest) w = await_answers rest w'"
    unfolding w'_def using assms(1) t1 by (simp del: pollJob_settle.simps)
  moreover have "in_flight w' = [jid]" "timers w' = []" "onProgressCallback w' = Some cb"
    "map snd (notified w') = map snd (notified w) @ [progress_of jid js]"
    "status_queries w' = status_queries w @ [jid]"
    unfolding w' using rest1 q1 by (simp_all add: pollJob_call_def del: pollJob_settle.simps)
  ultimately show ?thesis by simp
qed

lemma chain_step:
  assumes "in_flight w = [jid]" and "timers w = []" and "onProgressCallback w = Some cb"
    and "still_active js" and "callback_outcome w jid js = None"
  shows "\<exists>w'. await_answers (Inr js # rest) w = await_answers rest w' \<and>
           in_flight w' = [jid] \<and> timers w' = [] \<and> onProgressCallback w' = Some cb \<and>
           map snd (notified w') = map snd (notified w) @ [progress_of jid js] \<and>
           status_queries w' = status_queries w @ [jid]"
  using chain_step_explicit [OF assms] by blast

lemma chain_stops:
  assumes "in_flight w = [jid]" and "timers w = []"
    and "\<not> (still_active js \<and> callback_outcome w jid js = None)"
  shows "status_queries (await_answers (Inr js # rest) w) = status_queries w"
proof -
  have "set (timers (pollJob_settle jid (Inr js) w)) \<subseteq> set (timers w)"
    using assms(3) by (intro settle_no_timer) (simp add: still_active_def)
  then have "timers (pollJob_settle jid (Inr js) w) = []"
    using assms(2) by simp
  then have "await_answers (Inr js # rest) w = pollJob_settle jid (Inr js) w"
    using assms(1) by (simp del: pollJob_settle.simps)
  then show ?thesis by (simp add: settle_queries del: pollJob_settle.simps)
qed

lemma chain_fails:
  assumes "in_flight w = [jid]" and "timers w = []"
  shows "status_queries (await_answers (Inl e # rest) w) = status_queries w"
proof -
  have "set (timers (pollJob_settle jid (Inl e) w)) \<subseteq> set (timers w)"
    using catch_timers [of e "w\<lparr>in_flight := remove1 jid (in_flight w)\<rparr>"] by simp
  then have "timers (pollJob_settle jid (Inl e) w) = []"
    using assms(2) by simp
  then have "await_answers (Inl e # rest) w = pollJob_settle jid (Inl e) w"
    using assms(1) by (simp del: pollJob_settle.simps)
  then show ?thesis by (simp add: settle_queries del: pollJob_settle.simps)
qed

lemma chain_prefix:
  assumes "in_flight w = [jid]" and "timers w = []" and "onProgressCallback w = Some cb"
    and "all_active pre"
    and "returns_on (Some cb) (map snd (notified w)) (map (\<lambda>a. progress_of jid (projr a)) pre)"
  shows "\<exists>w'. await_answers (pre @ rest) w = await_answers rest w' \<and>
           in_flight w' = [jid] \<and> timers w' = [] \<and> onProgressCallback w' = Some cb \<and>
           map snd (notified w') = map snd (notified w) @ map (\<lambda>a. progress_of jid (projr a)) pre \<and>
           status_queries w' = status_queries w @ replicate (length pre) jid"
  using assms
proof (induction pre arbitrary: w)
  case Nil
  then show ?case by (intro exI [of _ w]) simp
next
  case (Cons a pre)
  then obtain js where a: "a = Inr js" and act: "still_active js" and rest: "all_active pre"
    by (cases a) (auto simp: all_active_def)
  from Cons.prems(5) a
  have call: "call_callback (Some cb) (map snd (notified w) @ [progress_of jid js]) = None"
    and later: "returns_on (Some cb) (map snd (notified w) @ [progress_of jid js])
                  (map (\<lambda>a. progress_of jid (projr a)) pre)"
    by simp_all
  have out: "callback_outcome w jid js = None"
    using call Cons.prems(3) by (simp add: callback_outcome_def)
  from chain_step [OF Cons.prems(1-3) act out, of "pre @ rest"]
  obtain w1 where w1: "await_answers (Inr js # pre @ rest) w = await_answers (pre @ rest) w1"
    "in_flight w1 = [jid]" "timers w1 = []" "onProgressCallback w1 = Some cb"
    "map snd (notified w1) = map snd (notified w) @ [progress_of jid js]"
    "status_queries w1 = status_queries w @ [jid]"
    by blast
  have later1: "returns_on (Some cb) (map snd (notified w1)) (map (\<lambda>a. progress_of jid (projr a)) pre)"
    using later w1(5) by simp
  from Cons.IH [OF w1(2,3,4) rest later1]
  obtain w2 where w2: "await_answers (pre @ rest) w1 = await_answers rest w2"
    "in_flight w2 = [jid]" "timers w2 = []" "onProgressCallback w2 = Some cb"
    "map snd (notified w2) = map snd (notified w1) @ map (\<lambda>a. progress_of jid (projr a)) pre"
    "status_queries w2 = status_queries w1 @ replicate (length pre) jid"
    by blast
  show ?case using a w1 w2 by (auto simp: replicate_app_Cons_same)
qed



text \<open>No query follows a rejected one, whatever the callback did before.\<close>

lemma chain_bound:
  assumes "in_flight w = [jid]" and "timers w = []" and "onProgressCallback w = Some cb"
    and "all_active pre"
  shows "length (status_queries (await_answers (pre @ Inl e # post) w))
         \<le> length (status_queries w) + length pre"
  using assms
proof (induction pre arbitrary: w)
  case Nil
  then show ?case using chain_fails [OF Nil.prems(1,2), of e post] by simp
next
  case (Cons a pre)
  then obtain js where a: "a = Inr js" and act: "still_active js" and rest: "all_active pre"
    by (cases a) (auto simp: all_active_def)
  show ?case
  proof (cases "callback_outcome w jid js")
    case None
    from chain_step [OF Cons.prems(1-3) act None, of "pre @ Inl e # post"]
    obtain w1 where w1: "await_answers (Inr js # pre @ Inl e # post) w
        = await_answers (pre @ Inl e # post) w1"
      "in_flight w1 = [jid]" "timers w1 = []" "onProgressCallback w1 = Some cb"
      "status_queries w1 = status_queries w @ [jid]"
      by blast
    from Cons.IH [OF w1(2,3,4) rest] show ?thesis using a w1(1,5) by simp
  next
    case (Some err)
    then have "\<not> (still_active js \<and> callback_outcome w jid js = None)" by simp
    from chain_stops [OF Cons.prems(1,2) this, of "pre @ Inl e # post"]
    show ?thesis using a by simp
  qed
qed

lemma started_chain:
  "in_flight (startPolling jid cb new_manager) = [jid]"
  "timers (startPolling jid cb new_manager) = []"
  "onProgressCallback (startPolling jid cb new_manager) = Some cb"
  "status_queries (startPolling jid cb new_manager) = [jid]"
  "notified (startPolling jid cb new_manager) = []"
  by (simp_all add: startPolling_def pollJob_call_def new_manager_def)


lemma chain_failure:
  assumes "all_active pre" and "returns_on (Some cb) [] (map (\<lambda>a. progress_of jid (projr a)) pre)"
  shows "status_queries (pollJob_run jid cb (pre @ Inl e # post)) = replicate (Suc (length pre)) jid"
proof -
  let ?w0 = "startPolling jid cb new_manager"
  have r0: "returns_on (Some cb) (map snd (notified ?w0)) (map (\<lambda>a. progress_of jid (projr a)) pre)"
    using assms(2) by (simp add: started_chain)
  from chain_prefix [OF started_chain(1,2,3) assms(1) r0, of "Inl e # post"]
  obtain w1 where w1: "await_answers (pre @ Inl e # post) ?w0 = await_answers (Inl e # post) w1"
    "in_flight w1 = [jid]" "timers w1 = []"
    "status_queries w1 = status_queries ?w0 @ replicate (length pre) jid"
    by blast
  from chain_fails [OF w1(2,3), of e post] show ?thesis using w1(1,4)
    by (simp add: pollJob_run_def started_chain replicate_append_same)
qed

lemma chain_failure_bound:
  assumes "all_active pre"
  shows "length (status_queries (pollJob_run jid cb (pre @ Inl e # post))) \<le> Suc (length pre)"
  using chain_bound [OF started_chain(1,2,3) assms]
  by (simp add: pollJob_run_def started_chain)

lemma quiet_event:
  assumes "onProgressCallback w = None" and "\<not> is_start ev"
  shows "onProgressCallback (apply_event ev w) = None \<and> notified (apply_event ev w) = notified w"
proof (cases ev)
  case (Start_polling jid cb)
  then show ?thesis using assms(2) by simp
next
  case Stop_polling
  then show ?thesis using assms(1) by (simp add: stopPolling_def Let_def split: option.splits)
next
  case (Timer_fires h)
  then show ?thesis using assms(1)
    by (simp add: timer_fires_def pollJob_call_def split: option.splits)
next
  case (Query_settles jid a)
  then show ?thesis using assms(1)
    by (cases a)
      (simp_all add: Let_def stopPolling_def pollJob_catch_def call_callback_def
        split: option.splits)
qed

lemma quiet_run:
  assumes "onProgressCallback w = None" and "list_all (\<lambda>ev. \<not> is_start ev) evs"
  shows "notified (run_events evs w) = notified w"
  using assms
proof (induction evs arbitrary: w)
  case Nil
  show ?case by simp
next
  case (Cons ev evs)
  then have q: "onProgressCallback (apply_event ev w) = None"
    "notified (apply_event ev w) = notified w"
    using quiet_event [of w ev] by simp_all
  from Cons.prems(2) have "list_all (\<lambda>ev. \<not> is_start ev) evs" by simp
  from Cons.IH [OF q(1) this] show ?case using q(2) by simp
qed




text \<open>
  Claim C8: if a status query inside \<^verbatim>\<open>pollJob\<close> fails, the manager stops polling: the
  pending timer is cleared, the progress callback is null, and no further progress
  callback is delivered for the job. The manager is in any state it can reach from its
  construction; the later events are any that do not start polling again. In a chain
  of \<^verbatim>\<open>pollJob\<close> whose timers fire, no query is issued after the failed one; it is query
  number \<open>length pre + 1\<close> when the callback returned on every status before it.
\<close>

theorem pollJob_failure_stops_polling:
  fixes evs0 :: "IBulkOperationProgress callback manager_event list"
    and jid :: string and e :: js_error
  defines "w \<equiv> run_events evs0 new_manager"
  defines "w' \<equiv> pollJob_settle jid (Inl e) w"
  shows "pollInterval w' = None \<and> onProgressCallback w' = None \<and>
         (\<forall>h. pollInterval w = Some h \<longrightarrow> h \<notin> fst ` set (timers w')) \<and>
         notified w' = notified w \<and>
         (\<forall>evs. list_all (\<lambda>ev. \<not> is_start ev) evs \<longrightarrow>
            notified (run_events evs w') = notified w) \<and>
         (\<forall>cb pre post. all_active pre \<longrightarrow>
            length (status_queries (pollJob_run jid cb (pre @ Inl e # post)))
              \<le> Suc (length pre)) \<and>
         (\<forall>cb pre post. all_active pre \<and>
              returns_on (Some cb) [] (map (\<lambda>a. progress_of jid (projr a)) pre) \<longrightarrow>
            status_queries (pollJob_run jid cb (pre @ Inl e # post))
              = replicate (Suc (length pre)) jid)"
proof -
  have fresh: "handles_fresh w"
    unfolding w_def by (rule handles_fresh_run [OF handles_fresh_new])
  have cb: "onProgressCallback w' = None"
    unfolding w'_def
    by (simp add: pollJob_catch_def Let_def stopPolling_def split: option.splits)
  have n: "notified w' = notified w"
    unfolding w'_def
    by (simp add: pollJob_catch_def Let_def stopPolling_def split: option.splits)
  have p: "pollInterval w' = None"
    using fresh unfolding w'_def
    by (auto simp: pollJob_catch_def Let_def stopPolling_def handles_fresh_def
        split: option.splits)
  have t: "\<forall>h. pollInterval w = Some h \<longrightarrow> h \<notin> fst ` set (timers w')"
    using fresh unfolding w'_def
    by (auto simp: pollJob_catch_def Let_def stopPolling_def handles_fresh_def
        split: option.splits)
  have later: "\<forall>evs. list_all (\<lambda>ev. \<not> is_start ev) evs \<longrightarrow>
      notified (run_events evs w') = notified w"
    using quiet_run [OF cb] n by simp
  have bound: "\<forall>cb pre post. all_active pre \<longrightarrow>
      length (status_queries (pollJob_run jid cb (pre @ Inl e # post))) \<le> Suc (length pre)"
    by (simp add: chain_failure_bound)
  have chain: "\<forall>cb pre post. all_active pre \<and>
              returns_on (Some cb) [] (map (\<lambda>a. progress_of jid (projr a)) pre) \<longrightarrow>
      status_queries (pollJob_run jid cb (pre @ Inl e # post)) = replicate (Suc (length pre)) jid"
    by (simp add: chain_failure)
  from p cb t n later bound chain show ?thesis by (intro conjI)
qed

theorem pollJob_failure_stops_polling_witness:
  "pollInterval (run_events [Start_polling ''job-1'' returning_callback,
       Start_polling ''job-1'' returning_callback, Start_polling ''job-1'' returning_callback,
       Query_settles ''job-1'' (Inr (sample_status Processing None))] new_manager) = Some 1 \<and>
   timers (run_events [Start_polling ''job-1'' returning_callback,
       Start_polling ''job-1'' returning_callback, Start_polling ''job-1'' returning_callback,
       Query_settles ''job-1'' (Inr (sample_status Processing None))] new_manager)
     = [(1, ''job-1'')] \<and>
   1 \<notin> fst ` set (timers (pollJob_settle ''job-1'' (Inl (Error ''Network Error''))
       (run_events [Start_polling ''job-1'' returning_callback,
          Start_polling ''job-1'' returning_callback, Start_polling ''job-1'' returning_callback,
          Query_settles ''job-1'' (Inr (sample_status Processing None))] new_manager))) \<and>
   list_all (\<lambda>ev. \<not> is_start ev)
     [Query_settles ''job-1'' (Inr (sample_status Processing None)), Timer_fires 2,
      Stop_polling :: IBulkOperationProgress callback manager_event] \<and>
   notified (run_events
       [Query_settles ''job-1'' (Inr (sample_status Processing None)), Timer_fires 2,
        Stop_polling]
       (pollJob_settle ''job-1'' (Inl (Error ''Network Error''))
         (run_events [Start_polling ''job-1'' returning_callback,
            Start_polling ''job-1'' returning_callback,
            Start_polling ''job-1'' returning_callback,
            Query_settles ''job-1'' (Inr (sample_status Processing None))] new_manager)))
     = [(returning_callback, progress_of ''job-1'' (sample_status Processing None))] \<and>
   all_active [Inr (sample_status Pending None)] \<and>
   returns_on (Some returning_callback) []
     (map (\<lambda>a. progress_of ''job-1'' (projr a))
        [Inr (sample_status Pending None) :: js_error + IJobStatusResponse]) \<and>
   status_queries (pollJob_run ''job-1'' returning_callback
       ([Inr (sample_status Pending None)] @ Inl (Error ''Network Error'') #
          [Inr (sample_status Completed None)]))
     = [''job-1'', ''job-1''] \<and>
   length (status_queries (pollJob_run ''job-1'' throwing_callback
       ([Inr (sample_status Pending None)] @ Inl (Error ''Network Error'') #
          [Inr (sample_status Completed None)]))) \<le> 2"
proof -
  let ?W = "run_events [Start_polling ''job-1'' returning_callback,
          Start_polling ''job-1'' returning_callback, Start_polling ''job-1'' returning_callback,
          Query_settles ''job-1'' (Inr (sample_status Processing None))] new_manager"
  let ?W' = "pollJob_settle ''job-1'' (Inl (Error ''Network Error'')) ?W"
  let ?pre = "[Inr (sample_status Pending None) :: js_error + IJobStatusResponse]"
  have w: "?W =
      \<lparr>pollInterval = Some 1, onProgressCallback = Some returning_callback,
       timers = [(1, ''job-1'')], next_handle = 2, in_flight = [''job-1'', ''job-1''],
       status_queries = [''job-1'', ''job-1'', ''job-1''],
       notified = [(returning_callback, progress_of ''job-1'' (sample_status Processing None))],
       console_errors = []\<rparr>"
    by (simp add: startPolling_def pollJob_call_def new_manager_def sample_status_def Let_def
        call_callback_def returning_callback_def)
  have h: "all_active ?pre"
    by (simp add: all_active_def still_active_def sample_status_def)
  have r: "returns_on (Some returning_callback) []
     (map (\<lambda>a. progress_of ''job-1'' (projr a)) ?pre)"
    by (simp add: call_callback_def returning_callback_def)
  have l: "list_all (\<lambda>ev. \<not> is_start ev)
     [Query_settles ''job-1'' (Inr (sample_status Processing None)), Timer_fires 2,
      Stop_polling :: IBulkOperationProgress callback manager_event]"
    by simp
  note inst = pollJob_failure_stops_polling [of "''job-1''" "Error ''Network Error''"
        "[Start_polling ''job-1'' returning_callback,
          Start_polling ''job-1'' returning_callback, Start_polling ''job-1'' returning_callback,
          Query_settles ''job-1'' (Inr (sample_status Processing None))]"]
  have pw: "pollInterval ?W = Some 1" and tw: "timers ?W = [(1, ''job-1'')]"
    and nw: "notified ?W
      = [(returning_callback, progress_of ''job-1'' (sample_status Processing None))]"
    unfolding w by simp_all
  have t: "1 \<notin> fst ` set (timers ?W')"
    by (rule inst [THEN conjunct2, THEN conjunct2, THEN conjunct1, rule_format]) (rule pw)
  have n: "notified (run_events
       [Query_settles ''job-1'' (Inr (sample_status Processing None)), Timer_fires 2,
        Stop_polling] ?W') = notified ?W"
    by (rule inst [THEN conjunct2, THEN conjunct2, THEN conjunct2, THEN conjunct2,
          THEN conjunct1, rule_format]) (rule l)
  have b: "length (status_queries (pollJob_run ''job-1'' throwing_callback
       (?pre @ Inl (Error ''Network Error'') # [Inr (sample_status Completed None)])))
     \<le> Suc (length ?pre)"
    by (rule inst [THEN conjunct2, THEN conjunct2, THEN conjunct2, THEN conjunct2,
          THEN conjunct2, THEN conjunct1, rule_format]) (rule h)
  have q: "status_queries (pollJob_run ''job-1'' returning_callback
       (?pre @ Inl (Error ''Network Error'') # [Inr (sample_status Completed None)]))
     = replicate (Suc (length ?pre)) ''job-1''"
    by (rule inst [THEN conjunct2, THEN conjunct2, THEN conjunct2, THEN conjunct2,
          THEN conjunct2, THEN conjunct2, rule_format]) (rule conjI [OF h r])
  have q': "replicate (Suc (length ?pre)) ''job-1'' = [''job-1'', ''job-1'']"
    by simp
  have b': "Suc (length ?pre) = 2"
    by simp
  note n' = trans [OF n nw] and q'' = trans [OF q q'] and b'' = b [unfolded b']
  show ?thesis
    by (intro conjI pw tw t l n' h r q'' b'')
qed

section \<open>Properties of the requests and of the dialog\<close>

lemma handleSubmit_traffic:
  "traffic (handleSubmit p c srv r) =
     (if submission_valid p r \<and> (selectionMethod r = All \<longrightarrow> c)
      then snd (createBulkAddJobWithPolling srv (handleSubmit_request p r)
                 (Some (\<lambda>history. None)))
      else no_trace)"
  by (cases "selectionMethod r")
    (auto simp: handleSubmit_def submission_valid_def rejected_def Let_def handleClose_def
      split: prod.splits outcome.splits js_error.splits)

lemma handleSubmit_posted:
  "posted (traffic (handleSubmit p c srv r)) =
     (if submission_valid p r \<and> (selectionMethod r = All \<longrightarrow> c)
      then [handleSubmit_request p r] else [])"
  by (simp add: handleSubmit_traffic helper_posted no_trace_def)

lemma startBulkAdd_posted:
  "posted (snd (startBulkAdd srv src tgt cids selectAll)) =
     [startBulkAdd_request src tgt cids selectAll]"
  by (simp add: startBulkAdd_def no_trace_def Let_def split: sum.splits)

lemma one_field_handleSubmit: "one_field_populated (handleSubmit_request p r)"
  by (simp add: one_field_populated_def handleSubmit_request_def)

lemma one_field_startBulkAdd: "one_field_populated (startBulkAdd_request src tgt cids selectAll)"
  by (simp add: one_field_populated_def startBulkAdd_request_def)

text \<open>
  Claim C7: every submit request the client builds populates exactly one field of
  \<open>selection_data\<close>, the one that belongs to its \<open>selection_kind\<close>: \<open>ids\<close> for
  \<open>explicit\<close>, \<open>total_at_snapshot\<close> for \<open>all_matching\<close>, the other being undefined. The
  client builds requests in \<^verbatim>\<open>handleSubmit\<close> and in \<^verbatim>\<open>startBulkAdd\<close>; the property holds
  of the two request objects and of every request either function posts.
\<close>

theorem requests_populate_one_field:
  "one_field_populated (handleSubmit_request p r) \<and>
   one_field_populated (startBulkAdd_request src tgt cids selectAll) \<and>
   (\<forall>req \<in> set (posted (traffic (handleSubmit p c srv r))). one_field_populated req) \<and>
   (\<forall>req \<in> set (posted (snd (startBulkAdd srv src tgt cids selectAll))).
      one_field_populated req)"
  by (simp add: handleSubmit_posted startBulkAdd_posted one_field_handleSubmit
      one_field_startBulkAdd)

theorem requests_populate_one_field_witness:
  "selection_kind (handleSubmit_request sample_props (sample_state ''c2'' All False))
     = All_matching \<and>
   total_at_snapshot (selection_data
       (handleSubmit_request sample_props (sample_state ''c2'' All False))) \<noteq> None \<and>
   ids (selection_data
       (handleSubmit_request sample_props (sample_state ''c2'' All False))) = None \<and>
   selection_kind (startBulkAdd_request ''c1'' ''c2'' [3, 4] False) = Explicit \<and>
   ids (selection_data (startBulkAdd_request ''c1'' ''c2'' [3, 4] False)) \<noteq> None \<and>
   total_at_snapshot (selection_data (startBulkAdd_request ''c1'' ''c2'' [3, 4] False)) = None \<and>
   handleSubmit_request sample_props (sample_state ''c2'' All False)
     \<in> set (posted (traffic (handleSubmit sample_props True (sample_server [])
                (sample_state ''c2'' All False)))) \<and>
   startBulkAdd_request ''c1'' ''c2'' [3, 4] False
     \<in> set (posted (snd (startBulkAdd (sample_server []) ''c1'' ''c2'' [3, 4] False)))"
  using requests_populate_one_field
    [of sample_props "sample_state ''c2'' All False" "''c1''" "''c2''" "[3, 4]" False True
        "sample_server []"]
  by (simp add: one_field_populated_def handleSubmit_posted startBulkAdd_posted
      submission_valid_def sample_props_def sample_state_def
      handleSubmit_request_def startBulkAdd_request_def)

text \<open>
  Claim C3, as stated: every request of kind \<open>all_matching\<close> that the client builds
  carries as \<open>total_at_snapshot\<close> the total the caller observed in the source collection.
  It fails for \<^verbatim>\<open>startBulkAdd\<close>: a caller that observed 100 companies in the source and
  asks for all of them gets a request whose \<open>total_at_snapshot\<close> is the constant 0.
\<close>

theorem startBulkAdd_snapshot_counterexample:
  "selection_kind (startBulkAdd_request ''c1'' ''c2'' [] True) = All_matching \<and>
   \<not> carries_snapshot 100 (startBulkAdd_request ''c1'' ''c2'' [] True)"
  by (simp add: carries_snapshot_def startBulkAdd_request_def)

text \<open>
  Claim C3, amended: every request of kind \<open>all_matching\<close> built by \<^verbatim>\<open>handleSubmit\<close> of
  the dialog carries as \<open>total_at_snapshot\<close> the total of the source collection that the
  dialog was given (\<open>totalCompaniesInCollection\<close>); every request of kind \<open>all_matching\<close>
  built by \<^verbatim>\<open>startBulkAdd\<close> carries the placeholder 0, whatever the caller observed.
\<close>

theorem snapshot_total_by_builder:
  "carries_snapshot (totalCompaniesInCollection p) (handleSubmit_request p r) \<and>
   (\<forall>req \<in> set (posted (traffic (handleSubmit p c srv r))).
      carries_snapshot (totalCompaniesInCollection p) req) \<and>
   carries_snapshot 0 (startBulkAdd_request src tgt cids selectAll) \<and>
   (\<forall>req \<in> set (posted (snd (startBulkAdd srv src tgt cids selectAll))).
      carries_snapshot 0 req)"
  by (simp add: handleSubmit_posted startBulkAdd_posted carries_snapshot_def
      handleSubmit_request_def startBulkAdd_request_def)

theorem snapshot_total_by_builder_witness:
  "selection_kind (handleSubmit_request sample_props (sample_state ''c2'' All False))
     = All_matching \<and>
   total_at_snapshot (selection_data
       (handleSubmit_request sample_props (sample_state ''c2'' All False))) = Some 100 \<and>
   handleSubmit_request sample_props (sample_state ''c2'' All False)
     \<in> set (posted (traffic (handleSubmit sample_props True (sample_server [])
                (sample_state ''c2'' All False)))) \<and>
   selection_kind (startBulkAdd_request ''c1'' ''c2'' [3, 4] True) = All_matching \<and>
   total_at_snapshot (selection_data (startBulkAdd_request ''c1'' ''c2'' [3, 4] True)) = Some 0 \<and>
   startBulkAdd_request ''c1'' ''c2'' [3, 4] True
     \<in> set (posted (snd (startBulkAdd (sample_server []) ''c1'' ''c2'' [3, 4] True)))"
  using snapshot_total_by_builder
    [of sample_props "sample_state ''c2'' All False" True "sample_server []"
        "''c1''" "''c2''" "[3, 4]" True]
  by (simp add: carries_snapshot_def handleSubmit_posted startBulkAdd_posted
      submission_valid_def sample_props_def sample_state_def
      handleSubmit_request_def startBulkAdd_request_def)

text \<open>
  The submit button (lines 224 to 232) is enabled only with a target selected and, for the
  method \<open>selected\<close>, a non-empty selection; the target menu never offers the source.
\<close>

lemma enabled_submit_is_valid:
  "\<not> submit_disabled p r \<Longrightarrow> sourceCollectionId p \<noteq> selectedTargetCollectionId r \<Longrightarrow>
   submission_valid p r"
  by (simp add: submit_disabled_def submission_valid_def)

text \<open>
  Claim C6: for every submission through the dialog, a job-creation request is issued only
  if a target collection is selected, the source differs from the target, and (for the
  method \<open>selected\<close>) the list of selected ids is non-empty; otherwise the submission is
  rejected synchronously with a descriptive error message and no job is created: nothing
  is sent, the call is not suspended, and the only change of state is the error message
  that names the failed check.
\<close>

theorem handleSubmit_validates_before_creating:
  \<open>(posted (traffic (handleSubmit p c srv r)) \<noteq> [] \<longrightarrow> submission_valid p r) \<and>
   (\<not> submission_valid p r \<longrightarrow>
      traffic (handleSubmit p c srv r) = no_trace \<and>
      \<not> awaiting (handleSubmit p c srv r) \<and>
      handleSubmit p c srv r =
        rejected r
          (if selectedTargetCollectionId r = [] then ''Please select a target collection''
           else if sourceCollectionId p = selectedTargetCollectionId r
           then ''Source and target collections cannot be the same''
           else ''No companies selected. Please select companies or choose "Add All"''))\<close>
proof (intro conjI impI)
  assume "posted (traffic (handleSubmit p c srv r)) \<noteq> []"
  then show "submission_valid p r"
    by (simp add: handleSubmit_posted split: if_splits)
next
  assume bad: "\<not> submission_valid p r"
  then show "traffic (handleSubmit p c srv r) = no_trace"
    by (simp add: handleSubmit_traffic)
  from bad show rej: \<open>handleSubmit p c srv r =
        rejected r
          (if selectedTargetCollectionId r = [] then ''Please select a target collection''
           else if sourceCollectionId p = selectedTargetCollectionId r
           then ''Source and target collections cannot be the same''
           else ''No companies selected. Please select companies or choose "Add All"'')\<close>
    by (auto simp: handleSubmit_def submission_valid_def)
  then show "\<not> awaiting (handleSubmit p c srv r)"
    by (simp add: rejected_def)
qed

theorem handleSubmit_validates_before_creating_witness:
  "posted (traffic (handleSubmit sample_props False
       (sample_server [Inr (sample_status Completed None)])
       (sample_state ''c2'' Selected False))) \<noteq> [] \<and>
   submission_valid sample_props (sample_state ''c2'' Selected False) \<and>
   \<not> submission_valid sample_props (sample_state ''c1'' Selected False) \<and>
   traffic (handleSubmit sample_props False
       (sample_server [Inr (sample_status Completed None)])
       (sample_state ''c1'' Selected False)) = no_trace \<and>
   error (final (handleSubmit sample_props False
       (sample_server [Inr (sample_status Completed None)])
       (sample_state ''c1'' Selected False)))
     = Some ''Source and target collections cannot be the same''"
  using handleSubmit_validates_before_creating
      [of sample_props False "sample_server [Inr (sample_status Completed None)]"
          "sample_state ''c2'' Selected False"]
    handleSubmit_validates_before_creating
      [of sample_props False "sample_server [Inr (sample_status Completed None)]"
          "sample_state ''c1'' Selected False"]
  by (simp add: handleSubmit_posted submission_valid_def sample_props_def sample_state_def
      rejected_def)

text \<open>
  Claim C9: while a bulk-add operation is processing (\<open>isProcessing\<close> is true),
  \<^verbatim>\<open>handleClose\<close> is a no-op: the target collection, the selection method, the error and
  the progress are left unchanged and \<^verbatim>\<open>onClose\<close> is not invoked.
\<close>

theorem handleClose_noop_while_processing:
  "isProcessing r \<Longrightarrow> handleClose r s = (s, False)"
  by (simp add: handleClose_def)

theorem handleClose_noop_while_processing_witness:
  "isProcessing (sample_state ''c2'' All True) \<and>
   handleClose (sample_state ''c2'' All True) (sample_state ''c2'' All True)
     = (sample_state ''c2'' All True, False)"
proof -
  have h: "isProcessing (sample_state ''c2'' All True)"
    by (simp add: sample_state_def)
  from h handleClose_noop_while_processing [OF h, of "sample_state ''c2'' All True"]
  show ?thesis by simp
qed

text \<open>
  Claim C10: for every selection change handled by \<^verbatim>\<open>handleSelectionChange\<close>, every
  company id that was selected before and is not among the ids of the page on display is
  still selected afterwards. This holds of the handler of CompanyTable.tsx and of its
  variant in src/unnamed/part_000.
\<close>

theorem selection_of_other_pages_kept:
  assumes "i \<in> set (selectedCompanyIds_t t)" and "i \<notin> set (map id_c (response t))"
  shows "i \<in> set (selectedCompanyIds_t (handleSelectionChange parse newSelection t)) \<and>
         i \<in> set (selectedCompanyIds_t (handleSelectionChange_part_000 parse newSelection t))"
  using assms by (simp add: handleSelectionChange_def handleSelectionChange_part_000_def Let_def)

theorem selection_of_other_pages_kept_witness:
  "7 \<in> set (selectedCompanyIds_t sample_table) \<and>
   7 \<notin> set (map id_c (response sample_table)) \<and>
   selectedCompanyIds_t (handleSelectionChange (\<lambda>s. 0) [Row_number 2] sample_table) = [7, 2] \<and>
   selectedCompanyIds_t (handleSelectionChange_part_000 (\<lambda>s. 0) [Row_number 2, Row_number 9]
      sample_table) = [7, 2]"
proof -
  have h1: "7 \<in> set (selectedCompanyIds_t sample_table)"
    and h2: "7 \<notin> set (map id_c (response sample_table))"
    by (simp_all add: sample_table_def)
  from h1 h2
    selection_of_other_pages_kept [OF h1 h2, of "\<lambda>s. 0" "[Row_number 2]"]
    selection_of_other_pages_kept [OF h1 h2, of "\<lambda>s. 0" "[Row_number 2, Row_number 9]"]
  show ?thesis
    by (simp add: sample_table_def handleSelectionChange_def
        handleSelectionChange_part_000_def Let_def)
qed

section \<open>Properties of the job engine\<close>

lemma engine_inv_created: "engine_inv (created src tgt sel st)"
  by (simp add: engine_inv_def created_def)

lemma engine_inv_fail: "engine_inv e \<Longrightarrow> engine_inv (fail_job msg e)"
  by (auto simp: engine_inv_def fail_job_def)

lemma engine_inv_claimed:
  "engine_inv e \<Longrightarrow> phase e = Unclaimed \<Longrightarrow>
   engine_inv (e\<lparr>job := (job e)\<lparr>status_j := Processing\<rparr>, phase := Validating\<rparr>)"
  by (auto simp: engine_inv_def)

lemma engine_inv_resolved:
  "engine_inv e \<Longrightarrow> phase e = Validating \<Longrightarrow>
   engine_inv (e\<lparr>job := (job e)\<lparr>total_items_j := length seq\<rparr>, pending_ids := seq,
                  phase := Iterating\<rparr>)"
  by (auto simp: engine_inv_def)

lemma engine_inv_ended:
  "engine_inv e \<Longrightarrow> engine_inv (e\<lparr>job := (job e)\<lparr>status_j := s\<rparr>, phase := Finished\<rparr>)"
  by (auto simp: engine_inv_def)

lemma engine_inv_skipped:
  "engine_inv e \<Longrightarrow> phase e = Iterating \<Longrightarrow> pending_ids e = x # rest \<Longrightarrow>
   engine_inv (e\<lparr>job := (job e)\<lparr>skipped_items_j := Suc (skipped_items_j (job e)),
                                 processed_items_j := Suc (processed_items_j (job e))\<rparr>,
                  pending_ids := rest\<rparr>)"
  by (auto simp: engine_inv_def)

lemma engine_inv_added:
  "engine_inv e \<Longrightarrow> phase e = Iterating \<Longrightarrow> pending_ids e = x # rest \<Longrightarrow>
   engine_inv (e\<lparr>job := (job e)\<lparr>added_items_j := Suc (added_items_j (job e)),
                                 processed_items_j := Suc (processed_items_j (job e))\<rparr>,
                  pending_ids := rest, store := st'\<rparr>)"
  by (auto simp: engine_inv_def)

lemma engine_inv_item_failed:
  "engine_inv e \<Longrightarrow> phase e = Iterating \<Longrightarrow> pending_ids e = x # rest \<Longrightarrow>
   engine_inv (e\<lparr>job := (job e)\<lparr>failed_items_j := Suc (failed_items_j (job e)),
                                 processed_items_j := Suc (processed_items_j (job e)),
                                 error_message_j := Some msg\<rparr>,
                  pending_ids := rest\<rparr>)"
  by (auto simp: engine_inv_def)

lemma engine_inv_executor:
  assumes "engine_inv e"
  shows "engine_inv (executor_step reply e)"
proof (cases "phase e")
  case Unclaimed
  then show ?thesis using assms by (simp add: executor_step_def engine_inv_claimed)
next
  case Validating
  then show ?thesis using assms
    by (simp add: executor_step_def Let_def engine_inv_fail engine_inv_resolved
        split: option.splits)
next
  case Iterating
  then show ?thesis using assms
    by (simp add: executor_step_def Let_def engine_inv_fail engine_inv_ended
        engine_inv_skipped engine_inv_added engine_inv_item_failed
        split: option.splits list.splits store_reply.splits)
next
  case Finished
  then show ?thesis using assms by (simp add: executor_step_def)
qed

lemma engine_inv_event: "engine_inv e \<Longrightarrow> engine_inv (engine_event_step ev e)"
proof (cases ev)
  case (Executor_step reply)
  assume "engine_inv e"
  then show ?thesis using Executor_step by (simp add: engine_inv_executor)
next
  case Cancel_request
  assume "engine_inv e"
  then show ?thesis using Cancel_request by (auto simp: engine_inv_def request_cancel_def)
next
  case (External_put c members)
  assume "engine_inv e"
  then show ?thesis using External_put by (auto simp: engine_inv_def)
next
  case (External_drop c)
  assume "engine_inv e"
  then show ?thesis using External_drop by (auto simp: engine_inv_def)
qed

lemma engine_inv_run: "engine_inv e \<Longrightarrow> engine_inv (run_engine evs e)"
  by (induction evs arbitrary: e) (simp_all add: engine_inv_event)

text \<open>
  The example of section 8 of the specification: the explicit ids 5, 5, 7 against a target
  that already holds 5 give a total of 2, one id added, one skipped, none failed, and
  the job completes.
\<close>

lemma explicit_selection_example:
  "job (run_engine (replicate 5 (Executor_step Add_succeeds))
         (created ''a'' ''b'' (Explicit_ids [5, 5, 7]) [''a'' \<mapsto> [5, 7, 9], ''b'' \<mapsto> [5]]))
       = \<lparr>source_j = ''a'', target_j = ''b'', selection_j = Explicit_ids [5, 5, 7],
          status_j = Completed, total_items_j = 2, processed_items_j = 2, added_items_j = 1,
          skipped_items_j = 1, failed_items_j = 0, error_message_j = None,
          cancel_requested = False\<rparr>"
  by (simp add: created_def executor_step_def resolve_def Let_def numeral_eq_Suc)

text \<open>
  Claim C1: for every job, at every observable instant, the counters satisfy
  \<open>processed_items = added_items + skipped_items + failed_items\<close> and
  \<open>processed_items \<le> total_items\<close>. An observable instant is the state after any
  sequence of executor steps, cancel requests and external changes of the store, from
  the creation of the job on.
\<close>

theorem counters_consistent_at_every_instant:
  "counters_consistent (job (run_engine evs (created src tgt sel st)))"
  using engine_inv_run [OF engine_inv_created, of evs src tgt sel st]
  by (simp add: engine_inv_def counters_consistent_def)

end
